theory Spec2Isabelle
  imports Complex_Main "HOL-Library.Sublist"
begin

section \<open>Document values\<close>

text \<open>
  The services read documents of a document store: dictionaries with string keys whose
  values are null, booleans, integers, doubles, strings, arrays or nested documents.
  A dictionary is an association list (\<open>map_of\<close> reads it). Doubles are modelled by
  the exact numbers they denote (type \<open>real\<close>); NaN and the infinities are not
  represented.
\<close>

datatype pyval =
    PNone
  | PBool bool
  | PInt int
  | PFloat real
  | PStr string
  | PList "pyval list"
  | PDict "(string \<times> pyval) list"

type_synonym pydict = "(string \<times> pyval) list"

datatype py_error =
    TypeError
  | ValueError
  | KeyError
  | IndexError
  | AttributeError
  | ZeroDivisionError
  | ValidationError
  | QueryError

text \<open>Truth value testing, as \<open>if v\<close> and \<open>bool(v)\<close> do it.\<close>

fun truthy :: "pyval \<Rightarrow> bool" where
  "truthy PNone = False"
| "truthy (PBool b) = b"
| "truthy (PInt i) = (i \<noteq> 0)"
| "truthy (PFloat x) = (x \<noteq> 0)"
| "truthy (PStr s) = (s \<noteq> [])"
| "truthy (PList xs) = (xs \<noteq> [])"
| "truthy (PDict d) = (d \<noteq> [])"

text \<open>\<open>d.get(k)\<close> and \<open>d.get(k, dflt)\<close> on a dictionary.\<close>

definition dict_get_default :: "pydict \<Rightarrow> string \<Rightarrow> pyval \<Rightarrow> pyval" where
  "dict_get_default d k dflt = (case map_of d k of None \<Rightarrow> dflt | Some v \<Rightarrow> v)"

definition dict_get :: "pydict \<Rightarrow> string \<Rightarrow> pyval" where
  "dict_get d k = dict_get_default d k PNone"

text \<open>
  \<open>float(v)\<close>. What \<open>float\<close> makes of a string is the runtime's number parser; it
  is the parameter \<open>strtod\<close> (\<open>None\<close> where the parser raises ValueError).
\<close>

fun py_float :: "(string \<Rightarrow> real option) \<Rightarrow> pyval \<Rightarrow> py_error + real" where
  "py_float strtod (PFloat x) = Inr x"
| "py_float strtod (PInt i) = Inr (of_int i)"
| "py_float strtod (PBool b) = Inr (if b then 1 else 0)"
| "py_float strtod (PStr s) = (case strtod s of None \<Rightarrow> Inl ValueError | Some x \<Rightarrow> Inr x)"
| "py_float strtod PNone = Inl TypeError"
| "py_float strtod (PList xs) = Inl TypeError"
| "py_float strtod (PDict d) = Inl TypeError"

text \<open>
  \<open>round(x, n)\<close> on the exact value: to the nearest multiple of \<open>10 ^ -n\<close>, a tie
  going to the even neighbour.
\<close>

definition round_half_even :: "real \<Rightarrow> int" where
  "round_half_even x =
     (let f = \<lfloor>x\<rfloor>; d = x - of_int f
      in if d < 1 / 2 then f else if 1 / 2 < d then f + 1 else if even f then f else f + 1)"

definition py_round :: "real \<Rightarrow> nat \<Rightarrow> real" where
  "py_round x n = of_int (round_half_even (x * 10 ^ n)) / 10 ^ n"

subsection \<open>String methods on ASCII letters\<close>

definition char_upper :: "char \<Rightarrow> char" where
  "char_upper c =
     (case map_of (zip ''abcdefghijklmnopqrstuvwxyz'' ''ABCDEFGHIJKLMNOPQRSTUVWXYZ'') c of
        None \<Rightarrow> c | Some u \<Rightarrow> u)"

definition char_lower :: "char \<Rightarrow> char" where
  "char_lower c =
     (case map_of (zip ''ABCDEFGHIJKLMNOPQRSTUVWXYZ'' ''abcdefghijklmnopqrstuvwxyz'') c of
        None \<Rightarrow> c | Some l \<Rightarrow> l)"

definition is_letter :: "char \<Rightarrow> bool" where
  "is_letter c = (c \<in> set ''abcdefghijklmnopqrstuvwxyzABCDEFGHIJKLMNOPQRSTUVWXYZ'')"

definition upper :: "string \<Rightarrow> string" where
  "upper s = map char_upper s"

definition capitalize :: "string \<Rightarrow> string" where
  "capitalize s = (case s of [] \<Rightarrow> [] | c # cs \<Rightarrow> char_upper c # map char_lower cs)"

text \<open>\<open>s.title()\<close>: a letter after a letter is lowered, any other letter is raised.\<close>

fun title_from :: "bool \<Rightarrow> string \<Rightarrow> string" where
  "title_from prev [] = []"
| "title_from prev (c # cs) =
     (if is_letter c then (if prev then char_lower c else char_upper c) # title_from True cs
      else c # title_from False cs)"

definition title :: "string \<Rightarrow> string" where
  "title s = title_from False s"

definition replace_dash :: "string \<Rightarrow> string" where
  "replace_dash s = map (\<lambda>c. if c = CHR ''-'' then CHR '' '' else c) s"

section \<open>Schemas\<close>

text \<open>
  \<open>ShopPrice\<close> and \<open>Product\<close> / \<open>ParaProduct\<close>, with the fields the normalizers
  derive from prices, old prices, availability and brand. The other fields (id, name,
  description, image, category, url, specifications) read other parts of the record and
  enter none of the fields kept; they are left out, and with them the parameters
  \<open>default_category\<close> and \<open>include_specs\<close>, which only they use. Computing them
  can raise, or the schema can refuse them, so the source returns on fewer records than
  the model; where it returns, the fields kept have the values computed here.
\<close>

record shop_price =
  shop :: string
  price :: real
  oldPrice :: "real option"
  available :: bool

record product =
  brand :: string
  bestPrice :: real
  originalPrice :: "real option"
  inStock :: bool
  shopPrices :: "shop_price list"

section \<open>The merged-record normalizers\<close>

text \<open>The \<open>for shop_name in [...]\<close> loop that appends an entry or skips the shop.\<close>

fun collect_prices ::
  "(string \<Rightarrow> py_error + shop_price option) \<Rightarrow> string list \<Rightarrow> shop_price list
     \<Rightarrow> py_error + shop_price list" where
  "collect_prices entry [] acc = Inr acc"
| "collect_prices entry (n # ns) acc =
     (case entry n of
        Inl e \<Rightarrow> Inl e
      | Inr None \<Rightarrow> collect_prices entry ns acc
      | Inr (Some sp) \<Rightarrow> collect_prices entry ns (acc @ [sp]))"

text \<open>\<open>p.get("shops", {})\<close>; every later \<open>shops_data.get\<close> needs a dictionary.\<close>

definition shops_data_of :: "pydict \<Rightarrow> py_error + pydict" where
  "shops_data_of p =
     (case dict_get_default p ''shops'' (PDict []) of
        PDict d \<Rightarrow> Inr d
      | _ \<Rightarrow> Inl AttributeError)"

text \<open>\<open>float(shop["old_price"]) if shop.get("old_price") else None\<close>\<close>

definition old_price_of :: "(string \<Rightarrow> real option) \<Rightarrow> pydict \<Rightarrow> py_error + real option" where
  "old_price_of strtod d =
     (if truthy (dict_get d ''old_price'')
      then (case py_float strtod (dict_get d ''old_price'') of
              Inl e \<Rightarrow> Inl e | Inr x \<Rightarrow> Inr (Some x))
      else Inr None)"

text \<open>
  The shop priority lists: the literal list of \<open>parse_product\<close>, and \<open>PARA_SHOPS\<close>.
\<close>

definition retail_shops :: "string list" where
  "retail_shops = [''mytek'', ''spacenet'', ''tunisianet'']"

definition PARA_SHOPS :: "string list" where
  "PARA_SHOPS = [''parashop'', ''pharma-shop'', ''parafendri'']"

text \<open>The body of the price loop of \<open>parse_product\<close> for one shop name.\<close>

definition retail_entry ::
  "(string \<Rightarrow> real option) \<Rightarrow> pydict \<Rightarrow> string \<Rightarrow> py_error + shop_price option" where
  "retail_entry strtod shops_data shop_name =
     (case dict_get shops_data shop_name of
        PDict d \<Rightarrow>
          if d \<noteq> [] \<and> truthy (dict_get d ''price'') then
            (case py_float strtod (dict_get d ''price'') of
               Inl e \<Rightarrow> Inl e
             | Inr pr \<Rightarrow>
                 (case old_price_of strtod d of
                    Inl e \<Rightarrow> Inl e
                  | Inr old \<Rightarrow>
                      Inr (Some \<lparr>shop = capitalize shop_name, price = pr, oldPrice = old,
                        available = truthy (dict_get_default d ''available'' (PBool False))\<rparr>)))
          else Inr None
      | v \<Rightarrow> if truthy v then Inl AttributeError else Inr None)"

text \<open>The body of the price loop of \<open>parse_para_product\<close> for one shop name.\<close>

definition para_entry ::
  "(string \<Rightarrow> real option) \<Rightarrow> pydict \<Rightarrow> string \<Rightarrow> py_error + shop_price option" where
  "para_entry strtod shops_data shop_name =
     (case dict_get shops_data shop_name of
        PDict d \<Rightarrow>
          if d \<noteq> [] \<and> truthy (dict_get d ''price'') then
            (case py_float strtod (dict_get d ''price'') of
               Inl e \<Rightarrow> Inl e
             | Inr pr \<Rightarrow>
                 (case old_price_of strtod d of
                    Inl e \<Rightarrow> Inl e
                  | Inr old \<Rightarrow>
                      Inr (Some \<lparr>shop = title (replace_dash shop_name), price = py_round pr 3,
                        oldPrice = old,
                        available = truthy (dict_get_default d ''available'' (PBool False))\<rparr>)))
          else Inr None
      | v \<Rightarrow> if truthy v then Inl AttributeError else Inr None)"

text \<open>\<open>shop_prices[0].price if shop_prices else 0.0\<close>\<close>

definition best_price_of :: "shop_price list \<Rightarrow> real" where
  "best_price_of sps = (case sps of [] \<Rightarrow> 0 | sp # _ \<Rightarrow> price sp)"

text \<open>\<open>[sp.oldPrice for sp in shop_prices if sp.oldPrice]\<close>: null and zero are falsy.\<close>

definition old_prices_of :: "shop_price list \<Rightarrow> real list" where
  "old_prices_of sps =
     List.map_filter (\<lambda>sp. case oldPrice sp of
                             None \<Rightarrow> None
                           | Some x \<Rightarrow> if x \<noteq> 0 then Some x else None) sps"

text \<open>\<open>min(old_prices) if old_prices else None\<close>\<close>

definition min_old_price :: "real list \<Rightarrow> real option" where
  "min_old_price xs = (case xs of [] \<Rightarrow> None | x # ys \<Rightarrow> Some (fold min ys x))"

text \<open>The brand loop: the first shop with a truthy brand decides, and the loop stops.\<close>

fun brand_loop :: "pydict \<Rightarrow> string list \<Rightarrow> py_error + string" where
  "brand_loop shops_data [] = Inr ''Generic''"
| "brand_loop shops_data (n # ns) =
     (case dict_get shops_data n of
        PDict d \<Rightarrow>
          if d \<noteq> [] \<and> truthy (dict_get d ''brand'') then
            (case dict_get d ''brand'' of
               PStr b \<Rightarrow> Inr (upper b)
             | _ \<Rightarrow> Inl AttributeError)
          else brand_loop shops_data ns
      | v \<Rightarrow> if truthy v then Inl AttributeError else brand_loop shops_data ns)"

definition parse_product :: "(string \<Rightarrow> real option) \<Rightarrow> pydict \<Rightarrow> py_error + product" where
  "parse_product strtod p =
     (case shops_data_of p of
        Inl e \<Rightarrow> Inl e
      | Inr shops_data \<Rightarrow>
          (case collect_prices (retail_entry strtod shops_data) retail_shops [] of
             Inl e \<Rightarrow> Inl e
           | Inr collected \<Rightarrow>
               (let shop_prices = sort_key price collected;
                    best_price = best_price_of shop_prices;
                    original_price = min_old_price (old_prices_of shop_prices)
                in case brand_loop shops_data retail_shops of
                     Inl e \<Rightarrow> Inl e
                   | Inr b \<Rightarrow>
                       Inr \<lparr>brand = b, bestPrice = best_price,
                         originalPrice =
                           (case original_price of
                              None \<Rightarrow> None
                            | Some x \<Rightarrow> if x \<noteq> 0 then Some x else None),
                         inStock = list_ex available shop_prices,
                         shopPrices = shop_prices\<rparr>)))"

definition parse_para_product :: "(string \<Rightarrow> real option) \<Rightarrow> pydict \<Rightarrow> py_error + product" where
  "parse_para_product strtod p =
     (case shops_data_of p of
        Inl e \<Rightarrow> Inl e
      | Inr shops_data \<Rightarrow>
          (case collect_prices (para_entry strtod shops_data) PARA_SHOPS [] of
             Inl e \<Rightarrow> Inl e
           | Inr collected \<Rightarrow>
               (let shop_prices = sort_key price collected;
                    best_price = best_price_of shop_prices;
                    original_price = min_old_price (old_prices_of shop_prices)
                in case brand_loop shops_data PARA_SHOPS of
                     Inl e \<Rightarrow> Inl e
                   | Inr b \<Rightarrow>
                       Inr \<lparr>brand = b, bestPrice = py_round best_price 3,
                         originalPrice =
                           (case original_price of
                              None \<Rightarrow> None
                            | Some x \<Rightarrow> if x \<noteq> 0 then Some (py_round x 3) else None),
                         inStock = list_ex available shop_prices,
                         shopPrices = shop_prices\<rparr>)))"

text \<open>
  What the price loop appends, read off the shop names in order: the entries of the shops
  whose body yields one.
\<close>

definition entries_of ::
  "(string \<Rightarrow> py_error + shop_price option) \<Rightarrow> string list \<Rightarrow> shop_price list" where
  "entries_of entry ns =
     List.map_filter (\<lambda>n. case entry n of Inl e \<Rightarrow> None | Inr r \<Rightarrow> r) ns"

section \<open>The single-shop normalizers\<close>

text \<open>
  \<open>brand = p.get("brand", "Generic")\<close>, raised to upper case when truthy. A truthy
  value that is no string has no \<open>upper\<close>; a falsy one that is no string is refused by
  the schema's \<open>brand: str\<close>.
\<close>

definition single_brand :: "pydict \<Rightarrow> py_error + string" where
  "single_brand p =
     (case dict_get_default p ''brand'' (PStr ''Generic'') of
        PStr b \<Rightarrow> Inr (if b \<noteq> [] then upper b else b)
      | v \<Rightarrow> if truthy v then Inl AttributeError else Inl ValidationError)"

definition parse_single_shop_product ::
  "(string \<Rightarrow> real option) \<Rightarrow> pydict \<Rightarrow> string \<Rightarrow> py_error + product" where
  "parse_single_shop_product strtod p shop_name =
     (case py_float strtod (dict_get_default p ''price'' (PInt 0)) of
        Inl e \<Rightarrow> Inl e
      | Inr pr \<Rightarrow>
          (case old_price_of strtod p of
             Inl e \<Rightarrow> Inl e
           | Inr old_price \<Rightarrow>
               (let shop_prices =
                      [\<lparr>shop = capitalize shop_name, price = pr, oldPrice = old_price,
                        available = truthy (dict_get_default p ''available'' (PBool False))\<rparr>]
                in case single_brand p of
                     Inl e \<Rightarrow> Inl e
                   | Inr b \<Rightarrow>
                       Inr \<lparr>brand = b, bestPrice = pr, originalPrice = old_price,
                         inStock = truthy (dict_get_default p ''available'' (PBool False)),
                         shopPrices = shop_prices\<rparr>)))"

text \<open>\<open>round(old_price, 3) if old_price else None\<close>\<close>

definition round_old_price :: "real option \<Rightarrow> real option" where
  "round_old_price old_price =
     (case old_price of
        None \<Rightarrow> None
      | Some x \<Rightarrow> if x \<noteq> 0 then Some (py_round x 3) else None)"

definition parse_single_para_shop_product ::
  "(string \<Rightarrow> real option) \<Rightarrow> pydict \<Rightarrow> string \<Rightarrow> py_error + product" where
  "parse_single_para_shop_product strtod p shop_name =
     (case py_float strtod (dict_get_default p ''price'' (PInt 0)) of
        Inl e \<Rightarrow> Inl e
      | Inr pr \<Rightarrow>
          (case old_price_of strtod p of
             Inl e \<Rightarrow> Inl e
           | Inr old_price \<Rightarrow>
               (let shop_prices =
                      [\<lparr>shop = title (replace_dash shop_name), price = py_round pr 3,
                        oldPrice = round_old_price old_price,
                        available = truthy (dict_get_default p ''available'' (PBool False))\<rparr>]
                in case single_brand p of
                     Inl e \<Rightarrow> Inl e
                   | Inr b \<Rightarrow>
                       Inr \<lparr>brand = b, bestPrice = py_round pr 3,
                         originalPrice = round_old_price old_price,
                         inStock = truthy (dict_get_default p ''available'' (PBool False)),
                         shopPrices = shop_prices\<rparr>)))"

section \<open>Listing\<close>

text \<open>
  The listing functions build an aggregation pipeline from their filters and run it inside
  a \<open>try\<close>. The store is outside this development: \<open>outcome\<close> is what
  \<open>await collection.aggregate(pipeline).to_list(length=1)\<close> does, an error raised or
  the list of result documents. The model starts there.
\<close>

record list_response =
  products :: "product list"
  total_count :: int
  page :: int
  limit :: int
  totalPages :: int

text \<open>
  \<open>metadata[0]["total"] if metadata else 0\<close>. The \<open>$count\<close> stage yields an integer
  and the response schema has \<open>total: int\<close>; any other value counts as refused.
\<close>

definition listing_total :: "pydict \<Rightarrow> py_error + int" where
  "listing_total result =
     (let metadata = dict_get_default result ''metadata'' (PList [])
      in if truthy metadata then
           (case metadata of
              PList (PDict m # _) \<Rightarrow>
                (case map_of m ''total'' of
                   None \<Rightarrow> Inl KeyError
                 | Some (PInt t) \<Rightarrow> Inr t
                 | Some _ \<Rightarrow> Inl ValidationError)
            | PDict _ \<Rightarrow> Inl KeyError
            | _ \<Rightarrow> Inl TypeError)
         else Inr 0)"

text \<open>\<open>(total + limit - 1) // limit if total > 0 else 1\<close>; \<open>//\<close> by zero raises.\<close>

definition total_pages_of :: "int \<Rightarrow> int \<Rightarrow> py_error + int" where
  "total_pages_of t lmt =
     (if 0 < t then (if lmt = 0 then Inl ZeroDivisionError else Inr ((t + lmt - 1) div lmt))
      else Inr 1)"

text \<open>What a \<open>for\<close> over a value iterates.\<close>

fun py_iter :: "pyval \<Rightarrow> py_error + pyval list" where
  "py_iter (PList xs) = Inr xs"
| "py_iter (PStr s) = Inr (map (\<lambda>c. PStr [c]) s)"
| "py_iter (PDict d) = Inr (map (\<lambda>kv. PStr (fst kv)) d)"
| "py_iter v = Inl TypeError"

text \<open>\<open>[parse(p) for p in products_raw]\<close>; \<open>p.get\<close> needs a dictionary.\<close>

fun parse_all ::
  "(pydict \<Rightarrow> py_error + product) \<Rightarrow> pyval list \<Rightarrow> py_error + product list" where
  "parse_all parse [] = Inr []"
| "parse_all parse (v # vs) =
     (case v of
        PDict d \<Rightarrow>
          (case parse d of
             Inl e \<Rightarrow> Inl e
           | Inr r \<Rightarrow>
               (case parse_all parse vs of
                  Inl e \<Rightarrow> Inl e
                | Inr rs \<Rightarrow> Inr (r # rs)))
      | _ \<Rightarrow> Inl AttributeError)"

text \<open>The body of the \<open>try\<close>, the same in both domains but for the normalizer.\<close>

definition listing_try ::
  "(pydict \<Rightarrow> py_error + product) \<Rightarrow> py_error + pydict list \<Rightarrow> int \<Rightarrow> int
     \<Rightarrow> py_error + list_response" where
  "listing_try parse outcome pg lmt =
     (case outcome of
        Inl e \<Rightarrow> Inl e
      | Inr [] \<Rightarrow> Inl IndexError
      | Inr (result # _) \<Rightarrow>
          (case listing_total result of
             Inl e \<Rightarrow> Inl e
           | Inr t \<Rightarrow>
               (case total_pages_of t lmt of
                  Inl e \<Rightarrow> Inl e
                | Inr total_pages \<Rightarrow>
                    (case py_iter (dict_get_default result ''products'' (PList [])) of
                       Inl e \<Rightarrow> Inl e
                     | Inr products_raw \<Rightarrow>
                         (case parse_all parse products_raw of
                            Inl e \<Rightarrow> Inl e
                          | Inr ps \<Rightarrow>
                              Inr \<lparr>products = ps, total_count = t, page = pg, limit = lmt,
                                totalPages = total_pages\<rparr>)))))"

text \<open>\<open>except Exception\<close>: the fallback response.\<close>

definition listing_fallback :: "int \<Rightarrow> int \<Rightarrow> list_response" where
  "listing_fallback pg lmt =
     \<lparr>products = [], total_count = 0, page = pg, limit = lmt, totalPages = 0\<rparr>"

definition get_products_listing ::
  "(string \<Rightarrow> real option) \<Rightarrow> py_error + pydict list \<Rightarrow> int \<Rightarrow> int \<Rightarrow> list_response" where
  "get_products_listing strtod outcome pg lmt =
     (case listing_try (parse_product strtod) outcome pg lmt of
        Inr r \<Rightarrow> r
      | Inl e \<Rightarrow> listing_fallback pg lmt)"

definition get_para_products_listing ::
  "(string \<Rightarrow> real option) \<Rightarrow> py_error + pydict list \<Rightarrow> int \<Rightarrow> int \<Rightarrow> list_response" where
  "get_para_products_listing strtod outcome pg lmt =
     (case listing_try (parse_para_product strtod) outcome pg lmt of
        Inr r \<Rightarrow> r
      | Inl e \<Rightarrow> listing_fallback pg lmt)"

section \<open>Autocomplete search\<close>

text \<open>
  \<open>SearchResult\<close> / \<open>ParaSearchResult\<close>, a projection of the normalized product.
\<close>

record search_result =
  res_brand :: string
  res_bestPrice :: real
  res_inStock :: bool

definition to_search_result :: "product \<Rightarrow> search_result" where
  "to_search_result pr =
     \<lparr>res_brand = brand pr, res_bestPrice = bestPrice pr, res_inStock = inStock pr\<rparr>"

text \<open>
  \<open>seen_skus\<close> is a set: booleans, integers and doubles that are equal as numbers are
  one element of it, and a list or a dictionary cannot be hashed. The model keeps the list
  of the keys seen, each number as the double it equals.
\<close>

fun hash_key :: "pyval \<Rightarrow> pyval" where
  "hash_key (PBool b) = PFloat (if b then 1 else 0)"
| "hash_key (PInt i) = PFloat (of_int i)"
| "hash_key v = v"

text \<open>
  \<open>sku = p.get("sku")\<close> and the test \<open>sku and sku not in seen_skus\<close>: the SKU when
  the document is to be collected, \<open>None\<close> when it is skipped.
\<close>

definition fresh_sku :: "pyval list \<Rightarrow> pydict \<Rightarrow> py_error + pyval option" where
  "fresh_sku seen_skus p =
     (let sku = dict_get p ''sku''
      in if \<not> truthy sku then Inr None
         else (case sku of
                 PList _ \<Rightarrow> Inl TypeError
               | PDict _ \<Rightarrow> Inl TypeError
               | _ \<Rightarrow> if hash_key sku \<in> set seen_skus then Inr None else Inr (Some sku)))"

text \<open>
  The loops thread \<open>seen_skus\<close> and \<open>results\<close>. Each result is kept with the SKU it
  was collected under, which the response itself does not carry.
\<close>

type_synonym search_state = "pyval list \<times> (pyval \<times> search_result) list"

text \<open>The loop over the merged collection's cursor.\<close>

fun merged_loop ::
  "(pydict \<Rightarrow> py_error + product) \<Rightarrow> pydict list \<Rightarrow> pyval list
     \<Rightarrow> (pyval \<times> search_result) list \<Rightarrow> py_error + search_state" where
  "merged_loop parse [] seen_skus results = Inr (seen_skus, results)"
| "merged_loop parse (p # ps) seen_skus results =
     (case fresh_sku seen_skus p of
        Inl e \<Rightarrow> Inl e
      | Inr None \<Rightarrow> merged_loop parse ps seen_skus results
      | Inr (Some sku) \<Rightarrow>
          (case parse p of
             Inl e \<Rightarrow> Inl e
           | Inr pr \<Rightarrow>
               merged_loop parse ps (hash_key sku # seen_skus)
                 (results @ [(sku, to_search_result pr)])))"

text \<open>The loop over one shop collection's cursor, left once the limit is reached.\<close>

fun shop_loop ::
  "(pydict \<Rightarrow> py_error + product) \<Rightarrow> int \<Rightarrow> pydict list \<Rightarrow> pyval list
     \<Rightarrow> (pyval \<times> search_result) list \<Rightarrow> py_error + search_state" where
  "shop_loop parse lmt [] seen_skus results = Inr (seen_skus, results)"
| "shop_loop parse lmt (p # ps) seen_skus results =
     (case fresh_sku seen_skus p of
        Inl e \<Rightarrow> Inl e
      | Inr None \<Rightarrow> shop_loop parse lmt ps seen_skus results
      | Inr (Some sku) \<Rightarrow>
          (case parse p of
             Inl e \<Rightarrow> Inl e
           | Inr pr \<Rightarrow>
               (let results' = results @ [(sku, to_search_result pr)]
                in if lmt \<le> int (length results') then Inr (hash_key sku # seen_skus, results')
                   else shop_loop parse lmt ps (hash_key sku # seen_skus) results')))"

text \<open>
  The loop over the shop collections. \<open>find_docs coll n\<close> is what the cursor of
  \<open>collection.find(...).limit(n)\<close> yields on collection \<open>coll\<close>.
\<close>

fun shops_loop ::
  "(pydict \<Rightarrow> string \<Rightarrow> py_error + product) \<Rightarrow> (string \<Rightarrow> int \<Rightarrow> pydict list)
     \<Rightarrow> int \<Rightarrow> int \<Rightarrow> (string \<times> string) list \<Rightarrow> pyval list \<Rightarrow> (pyval \<times> search_result) list
     \<Rightarrow> py_error + search_state" where
  "shops_loop parse_single find_docs lmt remaining [] seen_skus results = Inr (seen_skus, results)"
| "shops_loop parse_single find_docs lmt remaining ((shop_name, collection_name) # rest)
       seen_skus results =
     (if lmt \<le> int (length results) then Inr (seen_skus, results)
      else (case shop_loop (\<lambda>p. parse_single p shop_name) lmt (find_docs collection_name remaining)
                   seen_skus results of
              Inl e \<Rightarrow> Inl e
            | Inr (seen_skus', results') \<Rightarrow>
                shops_loop parse_single find_docs lmt remaining rest seen_skus' results'))"

text \<open>\<open>results[:limit]\<close>; a negative bound counts from the end.\<close>

definition slice_to :: "'a list \<Rightarrow> int \<Rightarrow> 'a list" where
  "slice_to xs n = (if 0 \<le> n then take (nat n) xs else take (nat (int (length xs) + n)) xs)"

definition search_tagged ::
  "(pydict \<Rightarrow> py_error + product) \<Rightarrow> (pydict \<Rightarrow> string \<Rightarrow> py_error + product)
     \<Rightarrow> (string \<times> string) list \<Rightarrow> (string \<Rightarrow> int \<Rightarrow> pydict list) \<Rightarrow> int
     \<Rightarrow> py_error + (pyval \<times> search_result) list" where
  "search_tagged parse parse_single shop_collections find_docs lmt =
     (case merged_loop parse (find_docs ''merged_products'' lmt) [] [] of
        Inl e \<Rightarrow> Inl e
      | Inr (seen_skus, results) \<Rightarrow>
          (case (if int (length results) < lmt
                 then shops_loop parse_single find_docs lmt
                        (lmt - int (length results)) shop_collections seen_skus results
                 else Inr (seen_skus, results)) of
             Inl e \<Rightarrow> Inl e
           | Inr (seen_skus', results') \<Rightarrow> Inr (slice_to results' lmt)))"

definition retail_collections :: "(string \<times> string) list" where
  "retail_collections =
     [(''mytek'', ''mytek_details''),
      (''spacenet'', ''spacenet_details''),
      (''tunisianet'', ''tunisianet_details'')]"

text \<open>Each collection name with \<open>shop_collection.replace("_details", "")\<close>.\<close>

definition para_collections :: "(string \<times> string) list" where
  "para_collections =
     [(''parashop'', ''parashop_details''),
      (''pharma-shop'', ''pharma-shop_details''),
      (''parafendri'', ''parafendri_details'')]"

definition search_products_tagged ::
  "(string \<Rightarrow> real option) \<Rightarrow> (string \<Rightarrow> int \<Rightarrow> pydict list) \<Rightarrow> int
     \<Rightarrow> py_error + (pyval \<times> search_result) list" where
  "search_products_tagged strtod find_docs lmt =
     search_tagged (parse_product strtod) (parse_single_shop_product strtod)
       retail_collections find_docs lmt"

definition search_para_products_tagged ::
  "(string \<Rightarrow> real option) \<Rightarrow> (string \<Rightarrow> int \<Rightarrow> pydict list) \<Rightarrow> int
     \<Rightarrow> py_error + (pyval \<times> search_result) list" where
  "search_para_products_tagged strtod find_docs lmt =
     search_tagged (parse_para_product strtod) (parse_single_para_shop_product strtod)
       para_collections find_docs lmt"

definition search_products ::
  "(string \<Rightarrow> real option) \<Rightarrow> (string \<Rightarrow> int \<Rightarrow> pydict list) \<Rightarrow> int
     \<Rightarrow> py_error + search_result list" where
  "search_products strtod find_docs lmt =
     map_sum id (map snd) (search_products_tagged strtod find_docs lmt)"

definition search_para_products ::
  "(string \<Rightarrow> real option) \<Rightarrow> (string \<Rightarrow> int \<Rightarrow> pydict list) \<Rightarrow> int
     \<Rightarrow> py_error + search_result list" where
  "search_para_products strtod find_docs lmt =
     map_sum id (map snd) (search_para_products_tagged strtod find_docs lmt)"

section \<open>Example documents\<close>

text \<open>A number parser that accepts no string; the examples carry numbers only.\<close>

definition no_strings :: "string \<Rightarrow> real option" where
  "no_strings s = None"

text \<open>
  A general-retail record with three offers, two of them at the same price, and what
  \<open>parse_product\<close> returns for it.
\<close>

definition retail_doc :: pydict where
  "retail_doc =
     [(''shops'', PDict
        [(''mytek'', PDict [(''price'', PInt 100), (''available'', PBool True)]),
         (''spacenet'', PDict [(''price'', PFloat 80), (''old_price'', PInt 90)]),
         (''tunisianet'', PDict [(''price'', PInt 80), (''brand'', PStr ''Acme'')])])]"

definition retail_result :: product where
  "retail_result =
     \<lparr>brand = ''ACME'', bestPrice = 80, originalPrice = Some 90, inStock = True,
      shopPrices =
        [\<lparr>shop = ''Spacenet'', price = 80, oldPrice = Some 90, available = False\<rparr>,
         \<lparr>shop = ''Tunisianet'', price = 80, oldPrice = None, available = False\<rparr>,
         \<lparr>shop = ''Mytek'', price = 100, oldPrice = None, available = True\<rparr>]\<rparr>"

text \<open>
  A parapharmacy record: prices 12.3456 and 5, one old price 6.0004; and what
  \<open>parse_para_product\<close> returns for it.
\<close>

definition para_doc :: pydict where
  "para_doc =
     [(''shops'', PDict
        [(''parashop'', PDict [(''price'', PFloat (123456 / 10000)), (''available'', PBool True)]),
         (''pharma-shop'', PDict [(''price'', PInt 5), (''old_price'', PFloat (60004 / 10000))])])]"

definition para_result :: product where
  "para_result =
     \<lparr>brand = ''Generic'', bestPrice = 5, originalPrice = Some 6, inStock = True,
      shopPrices =
        [\<lparr>shop = ''Pharma Shop'', price = 5, oldPrice = Some (60004 / 10000),
           available = False\<rparr>,
         \<lparr>shop = ''Parashop'', price = 12346 / 1000, oldPrice = None, available = True\<rparr>]\<rparr>"



text \<open>A single-shop record with no price, no old price and no brand.\<close>

definition single_doc :: pydict where
  "single_doc = [(''title'', PStr ''Lamp''), (''available'', PBool True)]"

text \<open>A general-retail record whose only offer has the price 0.\<close>

definition zero_price_doc :: pydict where
  "zero_price_doc =
     [(''shops'', PDict [(''mytek'', PDict [(''price'', PInt 0), (''available'', PBool True)])])]"

text \<open>
  General-retail records: one whose only offer is available but has no price, one whose
  offer has an old price equal to its price, and one with the price 1.234.
\<close>

definition unpriced_doc :: pydict where
  "unpriced_doc = [(''shops'', PDict [(''mytek'', PDict [(''available'', PBool True)])])]"



text \<open>
  Stores for the search: one whose merged collection matches two records without a SKU,
  and one per domain whose cursors yield records with repeated SKUs (7 and 7.0 are the
  same key). The cursors here ignore the bound they are given.
\<close>

definition skuless_find :: "string \<Rightarrow> int \<Rightarrow> pydict list" where
  "skuless_find coll n =
     (if coll = ''merged_products''
      then [[(''title'', PStr ''lamp'')], [(''title'', PStr ''lamp 2''), (''sku'', PNone)]]
      else [])"

definition sku_find :: "string \<Rightarrow> int \<Rightarrow> pydict list" where
  "sku_find coll n =
     (if coll = ''merged_products''
      then [(''sku'', PStr ''A1'') # retail_doc, [(''title'', PStr ''lamp'')],
            (''sku'', PStr ''A1'') # zero_price_doc]
      else if coll = ''mytek_details''
      then [(''sku'', PStr ''A1'') # single_doc, (''sku'', PStr ''B2'') # single_doc]
      else [])"

definition para_sku_find :: "string \<Rightarrow> int \<Rightarrow> pydict list" where
  "para_sku_find coll n =
     (if coll = ''merged_products''
      then [(''sku'', PInt 7) # para_doc, (''sku'', PFloat 7) # para_doc]
      else if coll = ''pharma-shop_details''
      then [(''sku'', PStr ''B2'') # single_doc, (''sku'', PInt 7) # single_doc]
      else [])"

text \<open>What the searches return on the last two stores, each result with its SKU.\<close>

definition retail_hits :: "(pyval \<times> search_result) list" where
  "retail_hits =
     [(PStr ''A1'', \<lparr>res_brand = ''ACME'', res_bestPrice = 80, res_inStock = True\<rparr>),
      (PStr ''B2'', \<lparr>res_brand = ''GENERIC'', res_bestPrice = 0, res_inStock = True\<rparr>)]"

definition para_hits :: "(pyval \<times> search_result) list" where
  "para_hits =
     [(PInt 7, \<lparr>res_brand = ''Generic'', res_bestPrice = 5, res_inStock = True\<rparr>),
      (PStr ''B2'', \<lparr>res_brand = ''GENERIC'', res_bestPrice = 0, res_inStock = True\<rparr>)]"

section \<open>The invariant of the search loops\<close>

text \<open>
  \<open>seen_skus\<close> holds the keys of the results collected so far, no key twice, and every
  result was collected under a truthy SKU.
\<close>

definition search_inv :: "pyval list \<Rightarrow> (pyval \<times> search_result) list \<Rightarrow> bool" where
  "search_inv seen_skus results =
     (set seen_skus = set (map (\<lambda>kr. hash_key (fst kr)) results) \<and>
      distinct (map (\<lambda>kr. hash_key (fst kr)) results) \<and>
      list_all (\<lambda>kr. truthy (fst kr)) results)"

section \<open>Properties of the helpers\<close>

lemma entries_of_Nil: "entries_of entry [] = []"
  by (simp add: entries_of_def)

lemma entries_of_Cons:
  "entries_of entry (n # ns) =
     (case entry n of Inr (Some sp) \<Rightarrow> sp # entries_of entry ns | _ \<Rightarrow> entries_of entry ns)"
  by (simp add: entries_of_def split: sum.splits option.splits)

lemma collect_prices_eq:
  "collect_prices entry ns acc = Inr cs \<Longrightarrow> cs = acc @ entries_of entry ns"
proof (induction ns arbitrary: acc)
  case Nil
  then show ?case by (simp add: entries_of_Nil)
next
  case (Cons n ns)
  show ?case
  proof (cases "entry n")
    case (Inl e)
    with Cons.prems show ?thesis by simp
  next
    case (Inr r)
    show ?thesis
    proof (cases r)
      case None
      with Inr Cons.prems have "collect_prices entry ns acc = Inr cs" by simp
      from Cons.IH[OF this] Inr None show ?thesis by (simp add: entries_of_Cons)
    next
      case (Some sp)
      with Inr Cons.prems have "collect_prices entry ns (acc @ [sp]) = Inr cs" by simp
      from Cons.IH[OF this] Inr Some show ?thesis by (simp add: entries_of_Cons)
    qed
  qed
qed

lemma set_entries_of:
  "set (entries_of entry ns) = {sp. \<exists>n \<in> set ns. entry n = Inr (Some sp)}"
proof (induction ns)
  case Nil
  show ?case by (simp add: entries_of_Nil)
next
  case (Cons n ns)
  show ?case
  proof (cases "entry n")
    case (Inl e)
    with Cons show ?thesis by (auto simp: entries_of_Cons)
  next
    case (Inr r)
    with Cons show ?thesis by (cases r) (auto simp: entries_of_Cons)
  qed
qed




lemma retail_entry_shop:
  "retail_entry strtod sd n = Inr (Some sp) \<Longrightarrow> shop sp = capitalize n"
  by (auto simp: retail_entry_def split: pyval.splits if_splits sum.splits)

lemma para_entry_shop:
  "para_entry strtod sd n = Inr (Some sp) \<Longrightarrow> shop sp = title (replace_dash n)"
  by (auto simp: para_entry_def split: pyval.splits if_splits sum.splits)



lemma parse_retail_doc: "parse_product no_strings retail_doc = Inr retail_result"
  unfolding retail_doc_def retail_result_def by code_simp

lemma parse_para_doc: "parse_para_product no_strings para_doc = Inr para_result"
  unfolding para_doc_def para_result_def by code_simp









lemma py_round_zero: "py_round 0 n = 0"
  by (simp add: py_round_def round_half_even_def)

lemma single_doc_retail:
  "parse_single_shop_product no_strings single_doc ''mytek'' =
     Inr \<lparr>brand = ''GENERIC'', bestPrice = 0, originalPrice = None, inStock = True,
          shopPrices = [\<lparr>shop = ''Mytek'', price = 0, oldPrice = None, available = True\<rparr>]\<rparr>"
  unfolding single_doc_def by code_simp

lemma single_doc_para:
  "parse_single_para_shop_product no_strings single_doc ''pharma-shop'' =
     Inr \<lparr>brand = ''GENERIC'', bestPrice = 0, originalPrice = None, inStock = True,
          shopPrices = [\<lparr>shop = ''Pharma Shop'', price = 0, oldPrice = None, available = True\<rparr>]\<rparr>"
  unfolding single_doc_def by code_simp

lemma collect_prices_all_Inr:
  "collect_prices entry ns acc = Inr cs \<Longrightarrow> n \<in> set ns \<Longrightarrow> \<exists>r. entry n = Inr r"
proof (induction ns arbitrary: acc)
  case Nil
  then show ?case by simp
next
  case (Cons m ns)
  show ?case
  proof (cases "entry m")
    case (Inl e)
    with Cons.prems show ?thesis by simp
  next
    case (Inr r)
    show ?thesis
    proof (cases "n = m")
      case True
      with Inr show ?thesis by simp
    next
      case False
      with Cons.prems have n: "n \<in> set ns" by simp
      from Inr Cons.prems obtain acc' where "collect_prices entry ns acc' = Inr cs"
        by (cases r) auto
      from Cons.IH[OF this n] show ?thesis .
    qed
  qed
qed

lemma parse_product_entries:
  assumes "parse_product strtod p = Inr r"
  obtains sd where "shops_data_of p = Inr sd"
    and "set (shopPrices r) = {sp. \<exists>n \<in> set retail_shops. retail_entry strtod sd n = Inr (Some sp)}"
    and "\<forall>n \<in> set retail_shops. \<exists>e. retail_entry strtod sd n = Inr e"
proof -
  from assms obtain sd cs where sd: "shops_data_of p = Inr sd"
    and cs: "collect_prices (retail_entry strtod sd) retail_shops [] = Inr cs"
    and r: "shopPrices r = sort_key price cs"
    by (auto simp: parse_product_def Let_def split: sum.splits)
  from cs have "cs = entries_of (retail_entry strtod sd) retail_shops"
    by (auto dest: collect_prices_eq)
  with r have "set (shopPrices r) = {sp. \<exists>n \<in> set retail_shops. retail_entry strtod sd n = Inr (Some sp)}"
    by (simp add: set_entries_of)
  moreover have "\<forall>n \<in> set retail_shops. \<exists>e. retail_entry strtod sd n = Inr e"
    using cs by (blast dest: collect_prices_all_Inr)
  ultimately show ?thesis using sd that by blast
qed

lemma parse_para_product_entries:
  assumes "parse_para_product strtod p = Inr r"
  obtains sd where "shops_data_of p = Inr sd"
    and "set (shopPrices r) = {sp. \<exists>n \<in> set PARA_SHOPS. para_entry strtod sd n = Inr (Some sp)}"
    and "\<forall>n \<in> set PARA_SHOPS. \<exists>e. para_entry strtod sd n = Inr e"
proof -
  from assms obtain sd cs where sd: "shops_data_of p = Inr sd"
    and cs: "collect_prices (para_entry strtod sd) PARA_SHOPS [] = Inr cs"
    and r: "shopPrices r = sort_key price cs"
    by (auto simp: parse_para_product_def Let_def split: sum.splits)
  from cs have "cs = entries_of (para_entry strtod sd) PARA_SHOPS"
    by (auto dest: collect_prices_eq)
  with r have "set (shopPrices r) = {sp. \<exists>n \<in> set PARA_SHOPS. para_entry strtod sd n = Inr (Some sp)}"
    by (simp add: set_entries_of)
  moreover have "\<forall>n \<in> set PARA_SHOPS. \<exists>e. para_entry strtod sd n = Inr e"
    using cs by (blast dest: collect_prices_all_Inr)
  ultimately show ?thesis using sd that by blast
qed

lemma retail_entry_Some_iff:
  "retail_entry strtod sd n = Inr e \<Longrightarrow>
     (e \<noteq> None) = (\<exists>d. dict_get sd n = PDict d \<and> truthy (dict_get d ''price''))"
  by (auto simp: retail_entry_def dict_get_def dict_get_default_def
      split: pyval.splits if_splits sum.splits)

lemma para_entry_Some_iff:
  "para_entry strtod sd n = Inr e \<Longrightarrow>
     (e \<noteq> None) = (\<exists>d. dict_get sd n = PDict d \<and> truthy (dict_get d ''price''))"
  by (auto simp: para_entry_def dict_get_def dict_get_default_def
      split: pyval.splits if_splits sum.splits)

lemma retail_names: "map capitalize retail_shops = [''Mytek'', ''Spacenet'', ''Tunisianet'']"
  by code_simp

lemma para_names:
  "map (\<lambda>n. title (replace_dash n)) PARA_SHOPS = [''Parashop'', ''Pharma Shop'', ''Parafendri'']"
  by code_simp

lemma capitalize_retail_inj:
  assumes "n \<in> set retail_shops" "m \<in> set retail_shops" "capitalize n = capitalize m"
  shows "n = m"
proof -
  have "distinct (map capitalize retail_shops)" by (simp add: retail_names)
  then have "inj_on capitalize (set retail_shops)" by (simp add: distinct_map)
  with assms show ?thesis by (auto dest: inj_onD)
qed

lemma title_para_inj:
  assumes "n \<in> set PARA_SHOPS" "m \<in> set PARA_SHOPS"
    "title (replace_dash n) = title (replace_dash m)"
  shows "n = m"
proof -
  have "distinct (map (\<lambda>n. title (replace_dash n)) PARA_SHOPS)" by (simp add: para_names)
  then have "inj_on (\<lambda>n. title (replace_dash n)) (set PARA_SHOPS)" by (simp add: distinct_map)
  with assms show ?thesis by (auto dest: inj_onD)
qed

lemma parse_product_inStock:
  "parse_product strtod p = Inr r \<Longrightarrow> inStock r = list_ex available (shopPrices r)"
  by (auto simp: parse_product_def Let_def split: sum.splits)

lemma parse_para_product_inStock:
  "parse_para_product strtod p = Inr r \<Longrightarrow> inStock r = list_ex available (shopPrices r)"
  by (auto simp: parse_para_product_def Let_def split: sum.splits)








lemma search_inv_empty: "search_inv [] []"
  by (simp add: search_inv_def)

lemma fresh_value_Some:
  "(if \<not> truthy v then Inr None
    else (case v of
            PList _ \<Rightarrow> Inl TypeError
          | PDict _ \<Rightarrow> Inl TypeError
          | _ \<Rightarrow> if hash_key v \<in> set seen_skus then Inr None else Inr (Some v)))
     = Inr (Some sku) \<Longrightarrow>
   truthy sku \<and> hash_key sku \<notin> set seen_skus"
  by (cases v) (auto split: if_splits)

lemma fresh_sku_Some:
  "fresh_sku seen_skus p = Inr (Some sku) \<Longrightarrow> truthy sku \<and> hash_key sku \<notin> set seen_skus"
  unfolding fresh_sku_def Let_def by (rule fresh_value_Some)

lemma search_inv_step:
  assumes "search_inv seen_skus results" and "fresh_sku seen_skus p = Inr (Some sku)"
  shows "search_inv (hash_key sku # seen_skus) (results @ [(sku, r)])"
proof -
  from assms(2) have "truthy sku" "hash_key sku \<notin> set seen_skus"
    by (auto dest: fresh_sku_Some)
  with assms(1) show ?thesis
    by (auto simp: search_inv_def)
qed

lemma merged_loop_inv:
  "search_inv seen_skus results \<Longrightarrow>
     merged_loop parse ps seen_skus results = Inr (seen_skus', results') \<Longrightarrow>
     search_inv seen_skus' results'"
proof (induction ps arbitrary: seen_skus results)
  case Nil
  then show ?case by simp
next
  case (Cons p ps)
  show ?case
  proof (cases "fresh_sku seen_skus p")
    case (Inl e)
    with Cons.prems show ?thesis by simp
  next
    case (Inr k)
    show ?thesis
    proof (cases k)
      case None
      with Inr Cons show ?thesis by simp
    next
      case (Some sku)
      with Inr Cons.prems(2) obtain pr where pr: "parse p = Inr pr"
        and l: "merged_loop parse ps (hash_key sku # seen_skus)
                  (results @ [(sku, to_search_result pr)]) = Inr (seen_skus', results')"
        by (auto split: sum.splits)
      from Cons.prems(1) Inr Some
      have "search_inv (hash_key sku # seen_skus) (results @ [(sku, to_search_result pr)])"
        by (auto intro: search_inv_step)
      from Cons.IH[OF this l] show ?thesis .
    qed
  qed
qed

lemma shop_loop_inv:
  "search_inv seen_skus results \<Longrightarrow>
     shop_loop parse lmt ps seen_skus results = Inr (seen_skus', results') \<Longrightarrow>
     search_inv seen_skus' results'"
proof (induction ps arbitrary: seen_skus results)
  case Nil
  then show ?case by simp
next
  case (Cons p ps)
  show ?case
  proof (cases "fresh_sku seen_skus p")
    case (Inl e)
    with Cons.prems show ?thesis by simp
  next
    case (Inr k)
    show ?thesis
    proof (cases k)
      case None
      with Inr Cons show ?thesis by simp
    next
      case (Some sku)
      with Inr Cons.prems(2) obtain pr where pr: "parse p = Inr pr"
        by (auto split: sum.splits)
      let ?seen = "hash_key sku # seen_skus"
      let ?res = "results @ [(sku, to_search_result pr)]"
      from Cons.prems(1) Inr Some have i: "search_inv ?seen ?res"
        by (auto intro: search_inv_step)
      show ?thesis
      proof (cases "lmt \<le> int (length ?res)")
        case True
        with Inr Some pr Cons.prems(2) have "seen_skus' = ?seen" "results' = ?res"
          by (simp_all add: Let_def)
        with i show ?thesis by simp
      next
        case False
        with Inr Some pr Cons.prems(2)
        have "shop_loop parse lmt ps ?seen ?res = Inr (seen_skus', results')"
          by (simp add: Let_def)
        from Cons.IH[OF i this] show ?thesis .
      qed
    qed
  qed
qed

lemma shops_loop_inv:
  "search_inv seen_skus results \<Longrightarrow>
     shops_loop parse_single find_docs lmt remaining colls seen_skus results
       = Inr (seen_skus', results') \<Longrightarrow>
     search_inv seen_skus' results'"
proof (induction colls arbitrary: seen_skus results)
  case Nil
  then show ?case by simp
next
  case (Cons c colls)
  obtain shop_name collection_name where c: "c = (shop_name, collection_name)"
    by (cases c)
  show ?case
  proof (cases "lmt \<le> int (length results)")
    case True
    with Cons.prems c show ?thesis by simp
  next
    case False
    with Cons.prems(2) c obtain s1 r1 where
      a: "shop_loop (\<lambda>p. parse_single p shop_name) lmt (find_docs collection_name remaining)
            seen_skus results = Inr (s1, r1)"
      and b: "shops_loop parse_single find_docs lmt remaining colls s1 r1
            = Inr (seen_skus', results')"
      by (auto split: sum.splits)
    from Cons.prems(1) a have "search_inv s1 r1" by (rule shop_loop_inv)
    from Cons.IH[OF this b] show ?thesis .
  qed
qed

lemma slice_to_take: "\<exists>k. slice_to xs n = take k xs"
  by (auto simp: slice_to_def)

lemma search_tagged_distinct:
  assumes "search_tagged parse parse_single colls find_docs lmt = Inr rs"
  shows "distinct (map (\<lambda>kr. hash_key (fst kr)) rs) \<and> (\<forall>kr \<in> set rs. truthy (fst kr))"
proof -
  from assms obtain s1 r1 where
    a: "merged_loop parse (find_docs ''merged_products'' lmt) [] [] = Inr (s1, r1)"
    by (auto simp: search_tagged_def split: sum.splits)
  from search_inv_empty a have i1: "search_inv s1 r1" by (rule merged_loop_inv)
  from assms a obtain s2 r2 where
    b: "(if int (length r1) < lmt
         then shops_loop parse_single find_docs lmt (lmt - int (length r1)) colls s1 r1
         else Inr (s1, r1)) = Inr (s2, r2)"
    and rs: "rs = slice_to r2 lmt"
    by (auto simp: search_tagged_def split: sum.splits)
  have i2: "search_inv s2 r2"
  proof (cases "int (length r1) < lmt")
    case True
    with b have "shops_loop parse_single find_docs lmt (lmt - int (length r1)) colls s1 r1
        = Inr (s2, r2)" by simp
    with i1 show ?thesis by (rule shops_loop_inv)
  next
    case False
    with b i1 show ?thesis by simp
  qed
  obtain k where k: "rs = take k r2" using rs slice_to_take by blast
  from i2 have d: "distinct (map (\<lambda>kr. hash_key (fst kr)) r2)"
    and t: "\<forall>kr \<in> set r2. truthy (fst kr)"
    by (simp_all add: search_inv_def list_all_iff)
  from d have "distinct (take k (map (\<lambda>kr. hash_key (fst kr)) r2))" by (rule distinct_take)
  then have "distinct (map (\<lambda>kr. hash_key (fst kr)) rs)" by (simp add: k take_map)
  moreover from t have "\<forall>kr \<in> set rs. truthy (fst kr)"
    using k by (auto dest: in_set_takeD)
  ultimately show ?thesis by simp
qed

lemma search_retail_example: "search_products_tagged no_strings sku_find 10 = Inr retail_hits"
  unfolding retail_hits_def by code_simp

lemma search_para_example:
  "search_para_products_tagged no_strings para_sku_find 10 = Inr para_hits"
  unfolding para_hits_def by code_simp

lemma brand_loop_default:
  assumes "\<forall>n \<in> set ns. \<forall>d. dict_get sd n = PDict d \<longrightarrow> \<not> truthy (dict_get d ''brand'')"
    and "brand_loop sd ns = Inr b"
  shows "b = ''Generic''"
  using assms
proof (induction ns)
  case Nil
  then show ?case by simp
next
  case (Cons n ns)
  then show ?case
    by (cases "dict_get sd n") (auto split: if_splits)
qed

lemma parse_product_brand:
  "parse_product strtod p = Inr r \<Longrightarrow>
     \<exists>sd. shops_data_of p = Inr sd \<and> brand_loop sd retail_shops = Inr (brand r)"
  by (auto simp: parse_product_def Let_def split: sum.splits)

lemma merged_default_brand:
  assumes "parse_product strtod p = Inr r" and "shops_data_of p = Inr sd"
    and "\<forall>n \<in> set retail_shops. \<forall>d. dict_get sd n = PDict d \<longrightarrow> \<not> truthy (dict_get d ''brand'')"
  shows "brand r = ''Generic''"
proof -
  from assms(1,2) have "brand_loop sd retail_shops = Inr (brand r)"
    by (auto dest: parse_product_brand)
  with assms(3) show ?thesis by (rule brand_loop_default)
qed

lemma retail_entry_available:
  "retail_entry strtod sd n = Inr e \<Longrightarrow>
     (\<exists>sp. e = Some sp \<and> available sp) =
     (\<exists>d. dict_get sd n = PDict d \<and> truthy (dict_get d ''price'') \<and>
          truthy (dict_get_default d ''available'' (PBool False)))"
  by (auto simp: retail_entry_def dict_get_def dict_get_default_def
      split: pyval.splits if_splits sum.splits)

lemma para_entry_available:
  "para_entry strtod sd n = Inr e \<Longrightarrow>
     (\<exists>sp. e = Some sp \<and> available sp) =
     (\<exists>d. dict_get sd n = PDict d \<and> truthy (dict_get d ''price'') \<and>
          truthy (dict_get_default d ''available'' (PBool False)))"
  by (auto simp: para_entry_def dict_get_def dict_get_default_def
      split: pyval.splits if_splits sum.splits)

lemma available_entry_iff:
  assumes s: "set sps = {sp. \<exists>n \<in> set ns. entry n = Inr (Some sp)}"
    and t: "\<forall>n \<in> set ns. \<exists>e. entry n = Inr e"
    and a: "\<And>n e. entry n = Inr e \<Longrightarrow> (\<exists>sp. e = Some sp \<and> available sp) = Q n"
  shows "(\<exists>sp \<in> set sps. available sp) = (\<exists>n \<in> set ns. Q n)"
proof
  assume "\<exists>sp \<in> set sps. available sp"
  then obtain sp n where "n \<in> set ns" "entry n = Inr (Some sp)" "available sp"
    using s by auto
  then show "\<exists>n \<in> set ns. Q n" using a by blast
next
  assume "\<exists>n \<in> set ns. Q n"
  then obtain n where n: "n \<in> set ns" "Q n" by blast
  with t obtain e where e: "entry n = Inr e" by blast
  with n a obtain sp where "e = Some sp" "available sp" by blast
  with e n s show "\<exists>sp \<in> set sps. available sp" by auto
qed

section \<open>The claims\<close>





text \<open>
  C7. When the query execution raises, both listing functions return the empty page: no
  products, total 0 and \<open>totalPages\<close> 0, with the requested page and page size.
\<close>

theorem listing_degrades_to_empty:
  "get_products_listing strtod (Inl e) pg lmt =
     \<lparr>products = [], total_count = 0, page = pg, limit = lmt, totalPages = 0\<rparr> \<and>
   get_para_products_listing strtod (Inl e) pg lmt =
     \<lparr>products = [], total_count = 0, page = pg, limit = lmt, totalPages = 0\<rparr>"
  by (simp add: get_products_listing_def get_para_products_listing_def listing_try_def
      listing_fallback_def)

text \<open>
  C10. Whenever a single-shop normalizer returns, in either domain, \<open>shopPrices\<close> has
  exactly one entry and \<open>bestPrice\<close> is that entry's price; when the record has no
  \<open>price\<close> field, that price is 0. The list is never empty.
\<close>

theorem single_shop_one_entry:
  "(parse_single_shop_product strtod p shop_name = Inr r \<longrightarrow>
      length (shopPrices r) = 1 \<and>
      bestPrice r = price (hd (shopPrices r)) \<and>
      (map_of p ''price'' = None \<longrightarrow> price (hd (shopPrices r)) = 0)) \<and>
   (parse_single_para_shop_product strtod p shop_name = Inr r \<longrightarrow>
      length (shopPrices r) = 1 \<and>
      bestPrice r = price (hd (shopPrices r)) \<and>
      (map_of p ''price'' = None \<longrightarrow> price (hd (shopPrices r)) = 0))"
  by (auto simp: parse_single_shop_product_def parse_single_para_shop_product_def Let_def
      dict_get_default_def py_round_zero split: sum.splits)

theorem single_shop_one_entry_witness:
  "map_of single_doc ''price'' = None \<and>
   parse_single_shop_product no_strings single_doc ''mytek'' =
     Inr \<lparr>brand = ''GENERIC'', bestPrice = 0, originalPrice = None, inStock = True,
          shopPrices = [\<lparr>shop = ''Mytek'', price = 0, oldPrice = None, available = True\<rparr>]\<rparr> \<and>
   parse_single_para_shop_product no_strings single_doc ''pharma-shop'' =
     Inr \<lparr>brand = ''GENERIC'', bestPrice = 0, originalPrice = None, inStock = True,
          shopPrices = [\<lparr>shop = ''Pharma Shop'', price = 0, oldPrice = None, available = True\<rparr>]\<rparr> \<and>
   length [\<lparr>shop = ''Mytek'', price = 0, oldPrice = None, available = True\<rparr>] = 1 \<and>
   length [\<lparr>shop = ''Pharma Shop'', price = 0, oldPrice = None, available = True\<rparr>] = 1"
proof -
  have n: "map_of single_doc ''price'' = None" by (simp add: single_doc_def)
  note a = single_shop_one_entry [of no_strings single_doc "''mytek''" _,
      THEN conjunct1, rule_format, OF single_doc_retail]
  note b = single_shop_one_entry [of no_strings single_doc "''pharma-shop''" _,
      THEN conjunct2, rule_format, OF single_doc_para]
  from a b n single_doc_retail single_doc_para show ?thesis by simp
qed

text \<open>
  C3, as the code has it. Whenever a merged-record normalizer returns, a shop of the
  priority list has an entry in \<open>shopPrices\<close> exactly when its offer is a dictionary
  whose price is truthy: present, not null, not zero and not the empty string.
\<close>

theorem offer_included_iff_price_truthy:
  "(parse_product strtod p = Inr r \<and> n \<in> set retail_shops \<longrightarrow>
      (\<exists>sd. shops_data_of p = Inr sd \<and>
         ((\<exists>sp \<in> set (shopPrices r). shop sp = capitalize n) =
          (\<exists>d. dict_get sd n = PDict d \<and> truthy (dict_get d ''price''))))) \<and>
   (parse_para_product strtod p = Inr r \<and> n \<in> set PARA_SHOPS \<longrightarrow>
      (\<exists>sd. shops_data_of p = Inr sd \<and>
         ((\<exists>sp \<in> set (shopPrices r). shop sp = title (replace_dash n)) =
          (\<exists>d. dict_get sd n = PDict d \<and> truthy (dict_get d ''price'')))))"
proof (intro conjI impI; elim conjE)
  assume a: "parse_product strtod p = Inr r" and n: "n \<in> set retail_shops"
  from a obtain sd where sd: "shops_data_of p = Inr sd"
    and s: "set (shopPrices r) = {sp. \<exists>n \<in> set retail_shops. retail_entry strtod sd n = Inr (Some sp)}"
    and t: "\<forall>n \<in> set retail_shops. \<exists>e. retail_entry strtod sd n = Inr e"
    by (rule parse_product_entries)
  from t n obtain e where e: "retail_entry strtod sd n = Inr e" by blast
  have "(\<exists>sp \<in> set (shopPrices r). shop sp = capitalize n) = (e \<noteq> None)"
  proof
    assume "\<exists>sp \<in> set (shopPrices r). shop sp = capitalize n"
    then obtain sp m where m: "m \<in> set retail_shops" "retail_entry strtod sd m = Inr (Some sp)"
      and c: "shop sp = capitalize n"
      using s by auto
    from m(2) have "shop sp = capitalize m" by (rule retail_entry_shop)
    with c m(1) n have "m = n" by (auto dest: capitalize_retail_inj)
    with m(2) e show "e \<noteq> None" by simp
  next
    assume "e \<noteq> None"
    then obtain sp where sp: "e = Some sp" by blast
    with e have "shop sp = capitalize n" by (auto dest: retail_entry_shop)
    moreover from e sp n s have "sp \<in> set (shopPrices r)" by auto
    ultimately show "\<exists>sp \<in> set (shopPrices r). shop sp = capitalize n" by blast
  qed
  also have "\<dots> = (\<exists>d. dict_get sd n = PDict d \<and> truthy (dict_get d ''price''))"
    using e by (rule retail_entry_Some_iff)
  finally show "\<exists>sd. shops_data_of p = Inr sd \<and>
         ((\<exists>sp \<in> set (shopPrices r). shop sp = capitalize n) =
          (\<exists>d. dict_get sd n = PDict d \<and> truthy (dict_get d ''price'')))"
    using sd by blast
next
  assume a: "parse_para_product strtod p = Inr r" and n: "n \<in> set PARA_SHOPS"
  from a obtain sd where sd: "shops_data_of p = Inr sd"
    and s: "set (shopPrices r) = {sp. \<exists>n \<in> set PARA_SHOPS. para_entry strtod sd n = Inr (Some sp)}"
    and t: "\<forall>n \<in> set PARA_SHOPS. \<exists>e. para_entry strtod sd n = Inr e"
    by (rule parse_para_product_entries)
  from t n obtain e where e: "para_entry strtod sd n = Inr e" by blast
  have "(\<exists>sp \<in> set (shopPrices r). shop sp = title (replace_dash n)) = (e \<noteq> None)"
  proof
    assume "\<exists>sp \<in> set (shopPrices r). shop sp = title (replace_dash n)"
    then obtain sp m where m: "m \<in> set PARA_SHOPS" "para_entry strtod sd m = Inr (Some sp)"
      and c: "shop sp = title (replace_dash n)"
      using s by auto
    from m(2) have "shop sp = title (replace_dash m)" by (rule para_entry_shop)
    with c m(1) n have "m = n" by (auto dest: title_para_inj)
    with m(2) e show "e \<noteq> None" by simp
  next
    assume "e \<noteq> None"
    then obtain sp where sp: "e = Some sp" by blast
    with e have "shop sp = title (replace_dash n)" by (auto dest: para_entry_shop)
    moreover from e sp n s have "sp \<in> set (shopPrices r)" by auto
    ultimately show "\<exists>sp \<in> set (shopPrices r). shop sp = title (replace_dash n)" by blast
  qed
  also have "\<dots> = (\<exists>d. dict_get sd n = PDict d \<and> truthy (dict_get d ''price''))"
    using e by (rule para_entry_Some_iff)
  finally show "\<exists>sd. shops_data_of p = Inr sd \<and>
         ((\<exists>sp \<in> set (shopPrices r). shop sp = title (replace_dash n)) =
          (\<exists>d. dict_get sd n = PDict d \<and> truthy (dict_get d ''price'')))"
    using sd by blast
qed

theorem offer_included_iff_price_truthy_witness:
  "parse_product no_strings retail_doc = Inr retail_result \<and>
   ''mytek'' \<in> set retail_shops \<and>
   (\<exists>sd. shops_data_of retail_doc = Inr sd \<and>
      ((\<exists>sp \<in> set (shopPrices retail_result). shop sp = capitalize ''mytek'') =
       (\<exists>d. dict_get sd ''mytek'' = PDict d \<and> truthy (dict_get d ''price'')))) \<and>
   parse_para_product no_strings para_doc = Inr para_result \<and>
   ''parafendri'' \<in> set PARA_SHOPS \<and>
   (\<exists>sd. shops_data_of para_doc = Inr sd \<and>
      ((\<exists>sp \<in> set (shopPrices para_result). shop sp = title (replace_dash ''parafendri'')) =
       (\<exists>d. dict_get sd ''parafendri'' = PDict d \<and> truthy (dict_get d ''price''))))"
proof -
  have m: "''mytek'' \<in> set retail_shops" by (simp add: retail_shops_def)
  have q: "''parafendri'' \<in> set PARA_SHOPS" by (simp add: PARA_SHOPS_def)
  note a = offer_included_iff_price_truthy [of no_strings retail_doc retail_result "''mytek''",
      THEN conjunct1, rule_format, OF conjI, OF parse_retail_doc m]
  note b = offer_included_iff_price_truthy [of no_strings para_doc para_result "''parafendri''",
      THEN conjunct2, rule_format, OF conjI, OF parse_para_doc q]
  from a b m q parse_retail_doc parse_para_doc show ?thesis by blast
qed

text \<open>
  C3 as stated fails: an offer whose price is present and 0 is not null, yet it is left
  out of the price list.
\<close>

theorem zero_price_offer_excluded:
  "parse_product no_strings zero_price_doc =
     Inr \<lparr>brand = ''Generic'', bestPrice = 0, originalPrice = None, inStock = False,
          shopPrices = []\<rparr> \<and>
   shops_data_of zero_price_doc =
     Inr [(''mytek'', PDict [(''price'', PInt 0), (''available'', PBool True)])] \<and>
   dict_get [(''price'', PInt 0), (''available'', PBool True)] ''price'' \<noteq> PNone"
  unfolding zero_price_doc_def by code_simp




text \<open>
  C4, as the code has it. Whenever a merged-record normalizer returns, the product is
  in stock exactly when some entry of \<open>shopPrices\<close> is available, that is, when some
  shop of the priority list has an offer with a truthy price and a truthy availability;
  with no entry it is out of stock.
\<close>

theorem in_stock_iff_included_offer_available:
  "(parse_product strtod p = Inr r \<longrightarrow>
      inStock r = (\<exists>sp \<in> set (shopPrices r). available sp) \<and>
      (shopPrices r = [] \<longrightarrow> \<not> inStock r) \<and>
      (\<exists>sd. shops_data_of p = Inr sd \<and>
         inStock r =
           (\<exists>n \<in> set retail_shops. \<exists>d. dict_get sd n = PDict d \<and>
               truthy (dict_get d ''price'') \<and>
               truthy (dict_get_default d ''available'' (PBool False))))) \<and>
   (parse_para_product strtod p = Inr r \<longrightarrow>
      inStock r = (\<exists>sp \<in> set (shopPrices r). available sp) \<and>
      (shopPrices r = [] \<longrightarrow> \<not> inStock r) \<and>
      (\<exists>sd. shops_data_of p = Inr sd \<and>
         inStock r =
           (\<exists>n \<in> set PARA_SHOPS. \<exists>d. dict_get sd n = PDict d \<and>
               truthy (dict_get d ''price'') \<and>
               truthy (dict_get_default d ''available'' (PBool False)))))"
proof (intro conjI impI)
  assume a: "parse_product strtod p = Inr r"
  then have i: "inStock r = (\<exists>sp \<in> set (shopPrices r). available sp)"
    by (simp add: parse_product_inStock list_ex_iff)
  then show "inStock r = (\<exists>sp \<in> set (shopPrices r). available sp)" .
  from i show "\<not> inStock r" if "shopPrices r = []" using that by simp
  from a obtain sd where sd: "shops_data_of p = Inr sd"
    and s: "set (shopPrices r) = {sp. \<exists>n \<in> set retail_shops. retail_entry strtod sd n = Inr (Some sp)}"
    and t: "\<forall>n \<in> set retail_shops. \<exists>e. retail_entry strtod sd n = Inr e"
    by (rule parse_product_entries)
  have "(\<exists>sp \<in> set (shopPrices r). available sp) =
      (\<exists>n \<in> set retail_shops. \<exists>d. dict_get sd n = PDict d \<and>
               truthy (dict_get d ''price'') \<and>
               truthy (dict_get_default d ''available'' (PBool False)))"
    using s t by (rule available_entry_iff) (rule retail_entry_available)
  with i sd show "\<exists>sd. shops_data_of p = Inr sd \<and>
         inStock r =
           (\<exists>n \<in> set retail_shops. \<exists>d. dict_get sd n = PDict d \<and>
               truthy (dict_get d ''price'') \<and>
               truthy (dict_get_default d ''available'' (PBool False)))"
    by blast
next
  assume a: "parse_para_product strtod p = Inr r"
  then have i: "inStock r = (\<exists>sp \<in> set (shopPrices r). available sp)"
    by (simp add: parse_para_product_inStock list_ex_iff)
  then show "inStock r = (\<exists>sp \<in> set (shopPrices r). available sp)" .
  from i show "\<not> inStock r" if "shopPrices r = []" using that by simp
  from a obtain sd where sd: "shops_data_of p = Inr sd"
    and s: "set (shopPrices r) = {sp. \<exists>n \<in> set PARA_SHOPS. para_entry strtod sd n = Inr (Some sp)}"
    and t: "\<forall>n \<in> set PARA_SHOPS. \<exists>e. para_entry strtod sd n = Inr e"
    by (rule parse_para_product_entries)
  have "(\<exists>sp \<in> set (shopPrices r). available sp) =
      (\<exists>n \<in> set PARA_SHOPS. \<exists>d. dict_get sd n = PDict d \<and>
               truthy (dict_get d ''price'') \<and>
               truthy (dict_get_default d ''available'' (PBool False)))"
    using s t by (rule available_entry_iff) (rule para_entry_available)
  with i sd show "\<exists>sd. shops_data_of p = Inr sd \<and>
         inStock r =
           (\<exists>n \<in> set PARA_SHOPS. \<exists>d. dict_get sd n = PDict d \<and>
               truthy (dict_get d ''price'') \<and>
               truthy (dict_get_default d ''available'' (PBool False)))"
    by blast
qed

theorem in_stock_iff_included_offer_available_witness:
  "parse_product no_strings retail_doc = Inr retail_result \<and>
   inStock retail_result = (\<exists>sp \<in> set (shopPrices retail_result). available sp) \<and>
   inStock retail_result \<and>
   (\<exists>sd. shops_data_of retail_doc = Inr sd \<and>
      inStock retail_result =
        (\<exists>n \<in> set retail_shops. \<exists>d. dict_get sd n = PDict d \<and>
            truthy (dict_get d ''price'') \<and>
            truthy (dict_get_default d ''available'' (PBool False)))) \<and>
   parse_para_product no_strings unpriced_doc =
     Inr \<lparr>brand = ''Generic'', bestPrice = 0, originalPrice = None, inStock = False,
          shopPrices = []\<rparr> \<and>
   shopPrices \<lparr>brand = ''Generic'', bestPrice = 0, originalPrice = None, inStock = False,
          shopPrices = []\<rparr> = [] \<and>
   \<not> inStock \<lparr>brand = ''Generic'', bestPrice = 0, originalPrice = None, inStock = False,
          shopPrices = []\<rparr>"
proof -
  have u: "parse_para_product no_strings unpriced_doc =
     Inr \<lparr>brand = ''Generic'', bestPrice = 0, originalPrice = None, inStock = False,
          shopPrices = []\<rparr>"
    unfolding unpriced_doc_def by code_simp
  note a = in_stock_iff_included_offer_available [of no_strings retail_doc retail_result,
      THEN conjunct1, rule_format, OF parse_retail_doc]
  note b = in_stock_iff_included_offer_available [of no_strings unpriced_doc _,
      THEN conjunct2, rule_format, OF u]
  have "inStock retail_result" by (simp add: retail_result_def)
  with a b u parse_retail_doc show ?thesis by simp
qed

text \<open>
  C4 as stated fails: an offer marked available but without a price does not make the
  product in stock.
\<close>

theorem available_offer_without_price_not_in_stock:
  "parse_product no_strings unpriced_doc =
     Inr \<lparr>brand = ''Generic'', bestPrice = 0, originalPrice = None, inStock = False,
          shopPrices = []\<rparr> \<and>
   shops_data_of unpriced_doc = Inr [(''mytek'', PDict [(''available'', PBool True)])] \<and>
   dict_get [(''available'', PBool True)] ''available'' = PBool True"
  unfolding unpriced_doc_def by code_simp




text \<open>
  C8, as the code has it. Whenever a search returns, in either domain, no two results
  were collected under the same SKU, and every result was collected under a truthy SKU:
  a match whose SKU is absent, null or empty is skipped and is never returned.
\<close>

theorem search_results_distinct_truthy_skus:
  "(search_products_tagged strtod find_docs lmt = Inr rs \<longrightarrow>
      search_products strtod find_docs lmt = Inr (map snd rs) \<and>
      distinct (map (\<lambda>kr. hash_key (fst kr)) rs) \<and>
      (\<forall>kr \<in> set rs. truthy (fst kr))) \<and>
   (search_para_products_tagged strtod find_docs lmt = Inr rs \<longrightarrow>
      search_para_products strtod find_docs lmt = Inr (map snd rs) \<and>
      distinct (map (\<lambda>kr. hash_key (fst kr)) rs) \<and>
      (\<forall>kr \<in> set rs. truthy (fst kr)))"
  by (auto simp: search_products_def search_para_products_def search_products_tagged_def
      search_para_products_tagged_def dest: search_tagged_distinct)


theorem search_results_distinct_truthy_skus_witness:
  "search_products_tagged no_strings sku_find 10 = Inr retail_hits \<and>
   search_products no_strings sku_find 10 = Inr (map snd retail_hits) \<and>
   distinct (map (\<lambda>kr. hash_key (fst kr)) retail_hits) \<and>
   list_all (\<lambda>kr. truthy (fst kr)) retail_hits \<and>
   search_para_products_tagged no_strings para_sku_find 10 = Inr para_hits \<and>
   search_para_products no_strings para_sku_find 10 = Inr (map snd para_hits) \<and>
   distinct (map (\<lambda>kr. hash_key (fst kr)) para_hits) \<and>
   list_all (\<lambda>kr. truthy (fst kr)) para_hits"
proof -
  note a = search_results_distinct_truthy_skus [of no_strings sku_find 10 retail_hits,
      THEN conjunct1, rule_format, OF search_retail_example]
  note b = search_results_distinct_truthy_skus [of no_strings para_sku_find 10 para_hits,
      THEN conjunct2, rule_format, OF search_para_example]
  from a b search_retail_example search_para_example show ?thesis
    by (simp add: list_all_iff)
qed

text \<open>
  C8 as stated fails: two matches without a SKU are both dropped, so that such matches
  do not appear in the results.
\<close>

theorem skuless_matches_never_returned:
  "skuless_find ''merged_products'' 10 =
     [[(''title'', PStr ''lamp'')], [(''title'', PStr ''lamp 2''), (''sku'', PNone)]] \<and>
   search_products no_strings skuless_find 10 = Inr []"
  by code_simp

text \<open>
  C9. With no truthy brand in any shop, the merged-record normalizer returns the brand
  \<open>Generic\<close> (\<open>merged_default_brand\<close>). The single-shop normalizers do not: for
  a record without a \<open>brand\<close> field they raise the default itself to upper case and
  return \<open>GENERIC\<close>, and for an empty brand they return the empty string.
\<close>

theorem single_shop_default_brand_uppercased:
  "map_sum id brand (parse_single_shop_product no_strings single_doc ''mytek'') = Inr ''GENERIC'' \<and>
   map_sum id brand (parse_single_para_shop_product no_strings single_doc ''pharma-shop'')
     = Inr ''GENERIC'' \<and>
   map_sum id brand (parse_single_shop_product no_strings [(''brand'', PStr '''')] ''mytek'')
     = Inr '''' \<and>
   map_sum id brand (parse_product no_strings unpriced_doc) = Inr ''Generic''"
  unfolding single_doc_def unpriced_doc_def by code_simp

end
